theory Spec2Isabelle
  imports Complex_Main "HOL-Library.Multiset"
begin

section \<open>Numbers and library functions\<close>

text \<open>
  The Go type \<open>float64\<close> and the TypeScript type \<open>number\<close> are modelled by \<^typ>\<open>real\<close>:
  rounding, overflow, infinities, signed zeros and NaN are left out of the model.
  \<open>math.Sin\<close>, \<open>math.Cos\<close> and \<open>math.Sqrt\<close> are \<^const>\<open>sin\<close>, \<^const>\<open>cos\<close> and
  \<^const>\<open>sqrt\<close>, \<open>math.Pi\<close> is \<^const>\<open>pi\<close>, and \<open>math.Pow x y\<close> is \<^term>\<open>x powr y\<close>.
  The model follows the library where the arguments of \<open>sqrt\<close> and of the base of
  \<open>powr\<close> are not negative and no divisor is zero.
\<close>

text \<open>
  \<open>math.Atan2(y, x)\<close> (and \<open>Math.atan2(y, x)\<close>): the angle of the point \<open>(x, y)\<close>,
  in the interval from \<open>-pi\<close> (excluded) to \<open>pi\<close> (included), and 0 at the origin.
\<close>

definition Atan2 :: "real \<Rightarrow> real \<Rightarrow> real" where
  "Atan2 y x =
     (if 0 < x then arctan (y / x)
      else if x < 0 then (if 0 \<le> y then arctan (y / x) + pi else arctan (y / x) - pi)
      else if 0 < y then pi / 2
      else if y < 0 then - (pi / 2)
      else 0)"

section \<open>Orbits and their propagation\<close>

record Vector2D =
  X :: real
  Y :: real

text \<open>
  The five orbital elements of the Go struct \<open>orbit\<close>. The TypeScript interface
  \<open>Orbit\<close> has the same five fields (it spells the mean anomaly at epoch \<open>M0\<close>), so
  the record serves for both.
\<close>

record orbit =
  a :: real
  e :: real
  pomega :: real
  m0 :: real
  n :: real

definition J2000 :: real where
  "J2000 = 2451545.0"

definition Period :: "'z orbit_scheme \<Rightarrow> real" where
  "Period obt = 2 * pi / n obt"

text \<open>
  The loop \<open>for i := 0; i < 10; i++ { E = M + o.e*math.Sin(E) }\<close> of \<open>PositionAt\<close>
  (and the same loop of \<open>updateOrbits\<close>), entered with the counter \<open>i\<close> and the
  current value of \<open>E\<close>.
\<close>

function kepler_loop :: "real \<Rightarrow> real \<Rightarrow> nat \<Rightarrow> real \<Rightarrow> real" where
  "kepler_loop M ecc i E =
     (if i < 10 then kepler_loop M ecc (i + 1) (M + ecc * sin E) else E)"
  by pat_completeness auto
termination
  by (relation "measure (\<lambda>(M, ecc, i, E). 10 - i)") auto

declare kepler_loop.simps [simp del]

definition PositionAt :: "'z orbit_scheme \<Rightarrow> real \<Rightarrow> Vector2D" where
  "PositionAt obt julianDay =
     (if a obt \<le> 0 then \<lparr>X = 0, Y = 0\<rparr>
      else
        let M = m0 obt + (julianDay - J2000) * n obt;
            E = kepler_loop M (e obt) 0 M;
            y = sqrt (1 - e obt) * cos (E / 2);
            x = sqrt (1 + e obt) * sin (E / 2);
            r = a obt * (1 - e obt * cos E);
            theta = pomega obt + 2 * Atan2 y x;
            x = r * cos theta;
            y = r * sin theta
        in \<lparr>X = x, Y = y\<rparr>)"

text \<open>
  The simulation-clock propagator of the map component. \<open>updateOrbits\<close> advances the
  clock \<open>t\<close> by \<open>deltaT\<close> and then, for every object, writes \<open>obj.frame.position\<close>
  and \<open>obj.body.scale\<close>.
\<close>

record SystemObject =
  obj_radius :: real
  obj_orbit :: orbit
  frame_position :: Vector2D
  body_scale :: Vector2D

record SystemMap =
  clock :: real
  objects :: "SystemObject list"

definition updateOrbits_body :: "real \<Rightarrow> SystemObject \<Rightarrow> SystemObject" where
  "updateOrbits_body t obj =
     (let obt = obj_orbit obj;
          M = - (m0 obt + t * n obt);
          E = kepler_loop M (e obt) 0 M;
          th = pomega obt
             + 2 * Atan2 (sqrt (1 - e obt) * cos (E / 2)) (sqrt (1 + e obt) * sin (E / 2));
          r = - a obt * (1 - e obt * cos E)
      in obj\<lparr>frame_position := \<lparr>X = r * cos th, Y = r * sin th\<rparr>,
             body_scale := \<lparr>X = obj_radius obj, Y = obj_radius obj\<rparr>\<rparr>)"

definition updateOrbits :: "real \<Rightarrow> SystemMap \<Rightarrow> SystemMap" where
  "updateOrbits deltaT st =
     (let t = clock st + deltaT
      in st\<lparr>clock := t, objects := map (updateOrbits_body t) (objects st)\<rparr>)"

section \<open>Bodies, barycenters and the heap\<close>

text \<open>
  \<open>NewSystem\<close> works on pointers: it writes fields of the central body and of the
  satellites in place and allocates the barycenter. The model has an explicit heap:
  an address is a natural number, \<open>cells\<close> gives the object at an address and
  \<open>fresh\<close> is the next address that an allocation returns (every address in use is
  below it). A pointer that may be \<open>nil\<close> is an \<^typ>\<open>nat option\<close>, a slice that may
  be \<open>nil\<close> is a list option.
\<close>

type_synonym addr = nat

datatype BodyType = Star | Planet | DwarfPlanet | Moon | Asteroid | Comet

text \<open>The dynamic type of an object: \<open>*Body\<close> (with its \<open>btype\<close>) or \<open>*Barycenter\<close>.\<close>

datatype variant = Body BodyType | Barycenter

record orbiter = orbit +
  name :: string
  parent :: "addr option"

record orbitable = orbiter +
  satellites :: "addr list option"
  radius :: real
  mass :: real
  soi :: real

record object = orbitable +
  variant :: variant

record heap =
  cells :: "addr \<Rightarrow> object"
  fresh :: addr

datatype panic = SatellitesAlreadySet | NilDereference

text \<open>A write through a pointer: \<open>p.f = v\<close> is \<open>upd p (\<lambda>b. b\<lparr>f := v\<rparr>)\<close>.\<close>

definition upd :: "addr \<Rightarrow> (object \<Rightarrow> object) \<Rightarrow> heap \<Rightarrow> heap" where
  "upd p f h = h\<lparr>cells := (cells h)(p := f (cells h p))\<rparr>"

text \<open>\<open>&Barycenter{}\<close>: a new object with every field at its zero value.\<close>

definition zero_Barycenter :: object where
  "zero_Barycenter =
     \<lparr>a = 0, e = 0, pomega = 0, m0 = 0, n = 0, name = [], parent = None,
      satellites = None, radius = 0, mass = 0, soi = 0, variant = Barycenter\<rparr>"

definition alloc :: "object \<Rightarrow> heap \<Rightarrow> addr \<times> heap" where
  "alloc x h = (fresh h, h\<lparr>cells := (cells h)(fresh h := x), fresh := Suc (fresh h)\<rparr>)"

text \<open>The assignment of the embedded struct \<open>orbit\<close> as a whole: \<open>dst.orbit = src.orbit\<close>.\<close>

definition set_orbit :: "'y orbit_scheme \<Rightarrow> 'z orbit_scheme \<Rightarrow> 'z orbit_scheme" where
  "set_orbit src dst =
     dst\<lparr>a := a src, e := e src, pomega := pomega src, m0 := m0 src, n := n src\<rparr>"

text \<open>The elements of a slice; ranging over a \<open>nil\<close> slice visits nothing.\<close>

definition elems :: "'x list option \<Rightarrow> 'x list" where
  "elems xs = (case xs of None \<Rightarrow> [] | Some ys \<Rightarrow> ys)"

text \<open>
  \<open>sort.Sort\<close> belongs to the Go library, not to this repository, and it is not
  stable: the order of satellites with equal \<open>a\<close> is the library's choice. The model
  takes the sorting procedure as the parameter \<open>srt\<close> (given the key of each element),
  and \<open>sorts_byA\<close> says what the library guarantees of its result under \<open>byA\<close>: a
  rearrangement of the slice in ascending order of \<open>a\<close>.
\<close>

type_synonym sorter = "(addr \<Rightarrow> real) \<Rightarrow> addr list \<Rightarrow> addr list"

definition sorts_byA :: "sorter \<Rightarrow> heap \<Rightarrow> addr list \<Rightarrow> bool" where
  "sorts_byA srt h xs \<longleftrightarrow>
     mset (srt (\<lambda>s. a (cells h s)) xs) = mset xs
     \<and> sorted (map (\<lambda>s. a (cells h s)) (srt (\<lambda>s. a (cells h s)) xs))"

section \<open>The hierarchy builder\<close>

text \<open>
  The body of the first loop of \<open>NewSystem\<close>, on the satellite \<open>s\<close>; the state is
  the heap with the variables \<open>barycenter\<close> and \<open>baryBody\<close>.
\<close>

definition soi_step :: "addr \<Rightarrow> addr \<Rightarrow> heap \<times> real \<times> addr option \<Rightarrow> heap \<times> real \<times> addr option" where
  "soi_step centralBody s = (\<lambda>(h, barycenter, baryBody).
     let h = upd s (\<lambda>body. body\<lparr>parent := Some centralBody\<rparr>) h;
         h = upd s (\<lambda>body. body\<lparr>soi := a body * (mass body / mass (cells h centralBody)) powr 0.4\<rparr>) h;
         r = a (cells h s) / (1 + mass (cells h centralBody) / mass (cells h s))
     in if r > barycenter then (h, r, Some s) else (h, barycenter, baryBody))"

text \<open>
  The body of the second loop, on the satellite \<open>s\<close>, with the barycenter \<open>bc\<close> and
  the dominant satellite \<open>baryBody\<close>; the state is the heap with the slices \<open>inner\<close>
  and \<open>outer\<close>.
\<close>

definition split_step :: "addr \<Rightarrow> addr \<Rightarrow> addr \<Rightarrow> heap \<times> addr list \<times> addr list \<Rightarrow> heap \<times> addr list \<times> addr list" where
  "split_step bc baryBody s = (\<lambda>(h, inner, outer).
     if a (cells h s) < a (cells h baryBody) - soi (cells h baryBody)
     then (h, inner @ [s], outer)
     else (upd s (\<lambda>body. body\<lparr>parent := Some bc\<rparr>) h, inner, outer @ [s]))"

text \<open>
  \<open>NewSystem\<close>, on the heap \<open>h\<close>, for the central body at \<open>centralBody\<close> and the slice
  \<open>sats\<close> of pointers to the satellites. It returns the root of the system with the
  heap it leaves, or the panic. Reading a field of the \<open>nil\<close> pointer \<open>baryBody\<close>
  panics: in the second loop when there is a satellite, and else where the name of the
  barycenter is built.
\<close>

definition NewSystem :: "sorter \<Rightarrow> heap \<Rightarrow> addr \<Rightarrow> addr list option \<Rightarrow> panic + (addr \<times> heap)" where
  "NewSystem srt h centralBody sats =
     (if satellites (cells h centralBody) \<noteq> None then Inl SatellitesAlreadySet
      else
        let sats = map_option (srt (\<lambda>s. a (cells h s))) sats;
            (h, barycenter, baryBody) = fold (soi_step centralBody) (elems sats) (h, 0, None)
        in if barycenter < 0.5 * radius (cells h centralBody) then
             let h = upd centralBody (\<lambda>b. b\<lparr>soi := - 1\<rparr>) h;
                 h = upd centralBody (\<lambda>b. b\<lparr>satellites := sats\<rparr>) h
             in Inr (centralBody, h)
           else
             let (bc, h) = alloc zero_Barycenter h
             in case baryBody of
                  None \<Rightarrow> Inl NilDereference
                | Some baryBody \<Rightarrow>
                    let (h, inner, outer) =
                          fold (split_step bc baryBody) (elems sats) (h, [], [centralBody]);
                        h = upd bc (\<lambda>b. b\<lparr>satellites := Some outer\<rparr>) h;
                        h = upd bc (set_orbit (cells h centralBody)) h;
                        h = upd bc (\<lambda>b. b\<lparr>name := name (cells h centralBody) @ ''-''
                                              @ name (cells h baryBody) @ '' Barycenter''\<rparr>) h;
                        h = upd bc (\<lambda>b. b\<lparr>radius := barycenter\<rparr>) h;
                        h = upd bc (\<lambda>b. b\<lparr>mass := mass (cells h centralBody)
                                              + mass (cells h baryBody)\<rparr>) h;
                        h = upd bc (\<lambda>b. b\<lparr>soi := - 1\<rparr>) h;
                        h = upd centralBody
                              (\<lambda>b. b\<lparr>soi := a (cells h baryBody) - soi (cells h baryBody)\<rparr>) h;
                        h = upd centralBody (\<lambda>b. b\<lparr>satellites := Some inner\<rparr>) h;
                        h = upd centralBody (set_orbit (cells h baryBody)) h;
                        h = upd centralBody (\<lambda>b. b\<lparr>a := barycenter\<rparr>) h;
                        h = upd centralBody (\<lambda>b. b\<lparr>m0 := m0 b + pi\<rparr>) h;
                        h = upd baryBody (\<lambda>b. b\<lparr>a := a b - barycenter\<rparr>) h
                    in Inr (bc, h))"

text \<open>
  The quantities of the specification, on the heap before the call: the sphere of
  influence \<open>a \<sqdot> (mass_satellite / mass_central)^0.4\<close> of a satellite and its barycenter
  offset \<open>a / (1 + mass_central / mass_satellite)\<close>.
\<close>

definition spec_soi :: "heap \<Rightarrow> addr \<Rightarrow> addr \<Rightarrow> real" where
  "spec_soi h c s = a (cells h s) * (mass (cells h s) / mass (cells h c)) powr 0.4"

definition spec_offset :: "heap \<Rightarrow> addr \<Rightarrow> addr \<Rightarrow> real" where
  "spec_offset h c s = a (cells h s) / (1 + mass (cells h c) / mass (cells h s))"

text \<open>
  The test of the second loop, on the heap before the call: the satellite \<open>s\<close> lies
  within the influence boundary \<open>a - soi\<close> of the dominant satellite \<open>d\<close>.
\<close>

definition spec_inner :: "heap \<Rightarrow> addr \<Rightarrow> addr \<Rightarrow> addr \<Rightarrow> bool" where
  "spec_inner h c d s \<longleftrightarrow> a (cells h s) < a (cells h d) - spec_soi h c d"


text \<open>
  Two auxiliary functions for the proofs: the update of \<open>barycenter\<close> and \<open>baryBody\<close>
  in the first loop and the test of the second loop, each read on a given heap.
\<close>

definition track :: "heap \<Rightarrow> addr \<Rightarrow> addr \<Rightarrow> real \<times> addr option \<Rightarrow> real \<times> addr option" where
  "track h c s = (\<lambda>(b, bb). if b < spec_offset h c s then (spec_offset h c s, Some s) else (b, bb))"

definition inside :: "heap \<Rightarrow> addr \<Rightarrow> addr \<Rightarrow> bool" where
  "inside h d s \<longleftrightarrow> a (cells h s) < a (cells h d) - soi (cells h d)"

section \<open>Constructors and two example systems\<close>

definition NewOrbit :: "real \<Rightarrow> real \<Rightarrow> real \<Rightarrow> real \<Rightarrow> real \<Rightarrow> orbit" where
  "NewOrbit sma ecc lp ma mm = \<lparr>a = sma, e = ecc, pomega = lp, m0 = ma, n = mm\<rparr>"

text \<open>The object that \<open>NewBody\<close> builds (the caller holds the pointer to it).\<close>

definition NewBody :: "BodyType \<Rightarrow> string \<Rightarrow> real \<Rightarrow> real \<Rightarrow> orbit \<Rightarrow> object" where
  "NewBody btype nm rad m obt =
     \<lparr>a = a obt, e = e obt, pomega = pomega obt, m0 = m0 obt, n = n obt,
      name = nm, parent = None, satellites = None, radius = rad, mass = m, soi = 0,
      variant = Body btype\<rparr>"

text \<open>
  The heap that holds the given objects at the addresses 0, 1, ... (the cells that are
  not allocated hold a zero object, which nothing reads).
\<close>

definition empty_heap :: heap where
  "empty_heap = \<lparr>cells = (\<lambda>p. zero_Barycenter), fresh = 0\<rparr>"

definition heap_of :: "object list \<Rightarrow> heap" where
  "heap_of xs = fold (\<lambda>x h. snd (alloc x h)) xs empty_heap"

text \<open>
  A body \<open>A\<close> of radius 1 with two moons \<open>B\<close> and \<open>C\<close> of its own mass, at the
  semi-major axes 10 and 8: the offsets are 5 and 4, so a barycenter is needed.
\<close>

definition binary_heap :: heap where
  "binary_heap = heap_of
     [NewBody Planet ''A'' 1 1 (NewOrbit 40 (1 / 4) 2 3 (1 / 100)),
      NewBody Moon ''B'' (1 / 2) 1 (NewOrbit 10 0 1 2 (1 / 6)),
      NewBody Moon ''C'' (1 / 4) 1 (NewOrbit 8 0 0 0 (1 / 5))]"

definition pair_result :: "panic + (addr \<times> heap)" where
  "pair_result = NewSystem sort_key binary_heap 0 (Some [1])"



section \<open>The orbit propagator: results\<close>

lemma kepler_loop_funpow:
  "i \<le> 10 \<Longrightarrow> kepler_loop M ecc i E = ((\<lambda>E'. M + ecc * sin E') ^^ (10 - i)) E"
proof (induction M ecc i E rule: kepler_loop.induct)
  case (1 M ecc i E)
  show ?case
  proof (cases "i < 10")
    case True
    then have steps: "10 - i = Suc (10 - (i + 1))" by simp
    have "kepler_loop M ecc i E = kepler_loop M ecc (i + 1) (M + ecc * sin E)"
      using True by (subst kepler_loop.simps) simp
    also have "\<dots> = ((\<lambda>E'. M + ecc * sin E') ^^ (10 - (i + 1))) (M + ecc * sin E)"
      using True 1 by simp
    also have "\<dots> = ((\<lambda>E'. M + ecc * sin E') ^^ (10 - i)) E"
      unfolding steps funpow_Suc_right by simp
    finally show ?thesis .
  next
    case False
    with 1 show ?thesis by (subst kepler_loop.simps) simp
  qed
qed

lemma kepler_loop_odd:
  "kepler_loop (- M) ecc i (- E) = - kepler_loop M ecc i E"
proof (induction M ecc i E rule: kepler_loop.induct)
  case (1 M ecc i E)
  show ?case
  proof (cases "i < 10")
    case True
    have "kepler_loop (- M) ecc i (- E) = kepler_loop (- M) ecc (i + 1) (- (M + ecc * sin E))"
      using True by (subst kepler_loop.simps) simp
    also have "\<dots> = - kepler_loop M ecc (i + 1) (M + ecc * sin E)"
      using True 1 by simp
    also have "\<dots> = - kepler_loop M ecc i E"
      using True by (subst (2) kepler_loop.simps) simp
    finally show ?thesis .
  next
    case False
    then show ?thesis by (simp add: kepler_loop.simps)
  qed
qed

lemma Atan2_neg_x_cases:
  "Atan2 y (- x) = pi - Atan2 y x \<or> Atan2 y (- x) = - pi - Atan2 y x
   \<or> Atan2 y (- x) = - Atan2 y x"
  by (simp add: Atan2_def arctan_minus)

lemma cos_Atan2_neg_x: "cos (w + 2 * Atan2 y (- x)) = cos (w - 2 * Atan2 y x)"
proof -
  have p: "cos (w - 2 * Atan2 y x + 2 * pi) = cos (w - 2 * Atan2 y x)"
    by (rule cos_periodic)
  have m: "cos (w - 2 * Atan2 y x - 2 * pi) = cos (w - 2 * Atan2 y x)"
    by (simp add: cos_diff)
  from Atan2_neg_x_cases [of y x] show ?thesis
  proof (elim disjE)
    assume "Atan2 y (- x) = pi - Atan2 y x"
    then have "w + 2 * Atan2 y (- x) = w - 2 * Atan2 y x + 2 * pi" by simp
    then show ?thesis by (simp only: p)
  next
    assume "Atan2 y (- x) = - pi - Atan2 y x"
    then have "w + 2 * Atan2 y (- x) = w - 2 * Atan2 y x - 2 * pi" by simp
    then show ?thesis by (simp only: m)
  next
    assume "Atan2 y (- x) = - Atan2 y x"
    then show ?thesis by simp
  qed
qed

lemma sin_Atan2_neg_x: "sin (w + 2 * Atan2 y (- x)) = sin (w - 2 * Atan2 y x)"
proof -
  have p: "sin (w - 2 * Atan2 y x + 2 * pi) = sin (w - 2 * Atan2 y x)"
    by (rule sin_periodic)
  have m: "sin (w - 2 * Atan2 y x - 2 * pi) = sin (w - 2 * Atan2 y x)"
    by (simp add: sin_diff)
  from Atan2_neg_x_cases [of y x] show ?thesis
  proof (elim disjE)
    assume "Atan2 y (- x) = pi - Atan2 y x"
    then have "w + 2 * Atan2 y (- x) = w - 2 * Atan2 y x + 2 * pi" by simp
    then show ?thesis by (simp only: p)
  next
    assume "Atan2 y (- x) = - pi - Atan2 y x"
    then have "w + 2 * Atan2 y (- x) = w - 2 * Atan2 y x - 2 * pi" by simp
    then show ?thesis by (simp only: m)
  next
    assume "Atan2 y (- x) = - Atan2 y x"
    then show ?thesis by simp
  qed
qed




text \<open>
  C5: an orbit whose semi-major axis is zero or negative has the position (0, 0),
  at every time and for every value of the other elements; the result is a value, never
  a failure.
\<close>

theorem PositionAt_degenerate:
  "a obt \<le> 0 \<Longrightarrow> PositionAt obt t = \<lparr>X = 0, Y = 0\<rparr>"
  by (simp add: PositionAt_def)

theorem PositionAt_degenerate_witness:
  "a \<lparr>a = - 1, e = 1 / 2, pomega = 1, m0 = 2, n = 3\<rparr> \<le> 0
   \<and> PositionAt \<lparr>a = - 1, e = 1 / 2, pomega = 1, m0 = 2, n = 3\<rparr> 2451550 = \<lparr>X = 0, Y = 0\<rparr>"
  using PositionAt_degenerate [of "\<lparr>a = - 1, e = 1 / 2, pomega = 1, m0 = 2, n = 3\<rparr>" 2451550]
  by simp

text \<open>
  C4, as stated, fails: the physical-time propagator on the mean anomaly \<open>M\<close> and the
  simulation-clock propagator on \<open>- M\<close> (with the negated radius) do not return the
  same point. For \<open>a = 1\<close>, \<open>e = 1 / 2\<close>, \<open>pomega = 0\<close> and \<open>M = 0\<close> (periapsis) the
  first returns \<open>(- 1 / 2, 0)\<close> and the second \<open>(1 / 2, 0)\<close>.
\<close>

theorem propagators_differ:
  "PositionAt \<lparr>a = 1, e = 1 / 2, pomega = 0, m0 = 0, n = 0\<rparr> 2451545 = \<lparr>X = - 1 / 2, Y = 0\<rparr>
   \<and> frame_position
       (updateOrbits_body 0
          \<lparr>obj_radius = 1, obj_orbit = \<lparr>a = 1, e = 1 / 2, pomega = 0, m0 = 0, n = 0\<rparr>,
           frame_position = \<lparr>X = 0, Y = 0\<rparr>, body_scale = \<lparr>X = 0, Y = 0\<rparr>\<rparr>)
     = \<lparr>X = 1 / 2, Y = 0\<rparr>
   \<and> PositionAt \<lparr>a = 1, e = 1 / 2, pomega = 0, m0 = 0, n = 0\<rparr> 2451545
     \<noteq> frame_position
         (updateOrbits_body 0
            \<lparr>obj_radius = 1, obj_orbit = \<lparr>a = 1, e = 1 / 2, pomega = 0, m0 = 0, n = 0\<rparr>,
             frame_position = \<lparr>X = 0, Y = 0\<rparr>, body_scale = \<lparr>X = 0, Y = 0\<rparr>\<rparr>)"
  by (simp add: PositionAt_def updateOrbits_body_def Let_def kepler_loop_funpow Atan2_def
      eval_nat_numeral)

text \<open>
  C4, amended: for \<open>a > 0\<close> and \<open>0 \<le> e < 1\<close>, the point of the simulation-clock
  propagator at the clock value \<open>jd - J2000\<close> (its mean anomaly is then the negative of
  the physical one) is the mirror image of the point of \<open>PositionAt\<close> at \<open>jd\<close>, in the
  line through the origin at the angle \<open>pomega + pi / 2\<close>. The two paths are mirror
  images of each other, not the same path.
\<close>

theorem updateOrbits_mirror_image:
  fixes obt :: orbit
  assumes "0 < a obt" and "0 \<le> e obt" and "e obt < 1" and "obj_orbit obj = obt"
  shows "X (frame_position (updateOrbits_body (jd - J2000) obj))
           = - X (PositionAt obt jd) * cos (2 * pomega obt)
             - Y (PositionAt obt jd) * sin (2 * pomega obt)
       \<and> Y (frame_position (updateOrbits_body (jd - J2000) obj))
           = - X (PositionAt obt jd) * sin (2 * pomega obt)
             + Y (PositionAt obt jd) * cos (2 * pomega obt)"
proof -
  define M where "M = m0 obt + (jd - J2000) * n obt"
  define E where "E = kepler_loop M (e obt) 0 M"
  define y where "y = sqrt (1 - e obt) * cos (E / 2)"
  define x where "x = sqrt (1 + e obt) * sin (E / 2)"
  define r where "r = a obt * (1 - e obt * cos E)"
  define w where "w = pomega obt"
  define u where "u = w + 2 * Atan2 y x"
  have go: "PositionAt obt jd = \<lparr>X = r * cos u, Y = r * sin u\<rparr>"
    using assms(1) by (simp add: PositionAt_def Let_def M_def E_def y_def x_def r_def w_def u_def)
  have E': "kepler_loop (- M) (e obt) 0 (- M) = - E"
    by (simp add: E_def kepler_loop_odd)
  have ts0: "frame_position (updateOrbits_body (jd - J2000) obj)
              = (let E' = kepler_loop (- M) (e obt) 0 (- M)
                 in \<lparr>X = - a obt * (1 - e obt * cos E')
                          * cos (w + 2 * Atan2 (sqrt (1 - e obt) * cos (E' / 2))
                                           (sqrt (1 + e obt) * sin (E' / 2))),
                     Y = - a obt * (1 - e obt * cos E')
                          * sin (w + 2 * Atan2 (sqrt (1 - e obt) * cos (E' / 2))
                                           (sqrt (1 + e obt) * sin (E' / 2)))\<rparr>)"
    using assms(4) by (simp add: updateOrbits_body_def Let_def M_def w_def)
  have ts: "frame_position (updateOrbits_body (jd - J2000) obj)
              = \<lparr>X = - r * cos (w + 2 * Atan2 y (- x)), Y = - r * sin (w + 2 * Atan2 y (- x))\<rparr>"
    unfolding ts0 E' by (simp add: y_def x_def r_def)
  have wu: "w - 2 * Atan2 y x = 2 * w - u"
    by (simp add: u_def)
  have c: "cos (w + 2 * Atan2 y (- x)) = cos (2 * w) * cos u + sin (2 * w) * sin u"
    unfolding cos_Atan2_neg_x wu by (rule cos_diff)
  have s: "sin (w + 2 * Atan2 y (- x)) = sin (2 * w) * cos u - cos (2 * w) * sin u"
    unfolding sin_Atan2_neg_x wu by (rule sin_diff)
  show ?thesis
    unfolding go ts c s by (simp add: w_def algebra_simps)
qed

theorem updateOrbits_mirror_image_witness:
  "0 < a \<lparr>a = 1, e = 0, pomega = 0, m0 = 0, n = 0\<rparr>
   \<and> 0 \<le> e \<lparr>a = 1, e = 0, pomega = 0, m0 = 0, n = 0\<rparr>
   \<and> e \<lparr>a = 1, e = 0, pomega = 0, m0 = 0, n = 0\<rparr> < 1
   \<and> X (frame_position
          (updateOrbits_body (2451545 - J2000)
             \<lparr>obj_radius = 1, obj_orbit = \<lparr>a = 1, e = 0, pomega = 0, m0 = 0, n = 0\<rparr>,
              frame_position = \<lparr>X = 0, Y = 0\<rparr>, body_scale = \<lparr>X = 0, Y = 0\<rparr>\<rparr>))
       = - X (PositionAt \<lparr>a = 1, e = 0, pomega = 0, m0 = 0, n = 0\<rparr> 2451545)"
  using updateOrbits_mirror_image
    [of "\<lparr>a = 1, e = 0, pomega = 0, m0 = 0, n = 0\<rparr>"
        "\<lparr>obj_radius = 1, obj_orbit = \<lparr>a = 1, e = 0, pomega = 0, m0 = 0, n = 0\<rparr>,
          frame_position = \<lparr>X = 0, Y = 0\<rparr>, body_scale = \<lparr>X = 0, Y = 0\<rparr>\<rparr>" 2451545]
  by simp

section \<open>The hierarchy builder: the two loops and the rewriting phase\<close>

lemma cells_upd [simp]: "cells (upd p f h) = (cells h)(p := f (cells h p))"
  by (simp add: upd_def)

lemma fresh_upd [simp]: "fresh (upd p f h) = fresh h"
  by (simp add: upd_def)

lemma soi_step_eq:
  "soi_step c s (h, b, bb) =
     (h\<lparr>cells := (cells h)(s := (cells h s)\<lparr>parent := Some c, soi := spec_soi h c s\<rparr>)\<rparr>,
      track h c s (b, bb))"
  by (simp add: soi_step_def track_def spec_soi_def spec_offset_def Let_def upd_def)

lemma spec_soi_cong:
  "(\<And>p. a (cells h' p) = a (cells h p)) \<Longrightarrow> (\<And>p. mass (cells h' p) = mass (cells h p))
   \<Longrightarrow> spec_soi h' c s = spec_soi h c s"
  by (simp add: spec_soi_def)

lemma track_cong:
  "(\<And>p. a (cells h' p) = a (cells h p)) \<Longrightarrow> (\<And>p. mass (cells h' p) = mass (cells h p))
   \<Longrightarrow> track h' c = track h c"
  by (simp add: track_def spec_offset_def fun_eq_iff)

lemma soi_loop_eq:
  "fold (soi_step c) ss (h, b, bb) =
     (h\<lparr>cells := (\<lambda>p. if p \<in> set ss
                        then (cells h p)\<lparr>parent := Some c, soi := spec_soi h c p\<rparr>
                        else cells h p)\<rparr>,
      fold (track h c) ss (b, bb))"
proof (induction ss arbitrary: h b bb)
  case Nil
  show ?case by simp
next
  case (Cons s ss)
  define h2 where "h2 = h\<lparr>cells := (cells h)(s := (cells h s)\<lparr>parent := Some c, soi := spec_soi h c s\<rparr>)\<rparr>"
  have a2: "\<And>p. a (cells h2 p) = a (cells h p)" and m2: "\<And>p. mass (cells h2 p) = mass (cells h p)"
    by (simp_all add: h2_def)
  have soi2: "\<And>p. spec_soi h2 c p = spec_soi h c p"
    by (rule spec_soi_cong) (simp_all add: a2 m2)
  have tr2: "track h2 c = track h c"
    by (rule track_cong) (simp_all add: a2 m2)
  obtain b2 bb2 where t: "track h c s (b, bb) = (b2, bb2)"
    by (cases "track h c s (b, bb)")
  have "fold (soi_step c) (s # ss) (h, b, bb) = fold (soi_step c) ss (h2, b2, bb2)"
    by (simp add: soi_step_eq h2_def t)
  also have "\<dots> = (h2\<lparr>cells := (\<lambda>p. if p \<in> set ss
                        then (cells h2 p)\<lparr>parent := Some c, soi := spec_soi h2 c p\<rparr>
                        else cells h2 p)\<rparr>, fold (track h2 c) ss (b2, bb2))"
    by (rule Cons.IH)
  also have "\<dots> = (h\<lparr>cells := (\<lambda>p. if p \<in> set (s # ss)
                        then (cells h p)\<lparr>parent := Some c, soi := spec_soi h c p\<rparr>
                        else cells h p)\<rparr>, fold (track h c) (s # ss) (b, bb))"
    unfolding soi2 tr2 by (auto simp add: h2_def t fun_eq_iff)
  finally show ?case .
qed

lemma split_step_eq:
  "split_step bc d s (h, inner, outer) =
     (if inside h d s then (h, inner @ [s], outer)
      else (h\<lparr>cells := (cells h)(s := (cells h s)\<lparr>parent := Some bc\<rparr>)\<rparr>, inner, outer @ [s]))"
  by (simp add: split_step_def inside_def upd_def)

lemma inside_cong:
  "(\<And>p. a (cells h' p) = a (cells h p)) \<Longrightarrow> (\<And>p. soi (cells h' p) = soi (cells h p))
   \<Longrightarrow> inside h' d = inside h d"
  by (simp add: inside_def fun_eq_iff)

lemma split_loop_eq:
  "fold (split_step bc d) ss (h, inner, outer) =
     (h\<lparr>cells := (\<lambda>p. if p \<in> set ss \<and> \<not> inside h d p
                        then (cells h p)\<lparr>parent := Some bc\<rparr> else cells h p)\<rparr>,
      inner @ filter (inside h d) ss,
      outer @ filter (\<lambda>s. \<not> inside h d s) ss)"
proof (induction ss arbitrary: h inner outer)
  case Nil
  show ?case by simp
next
  case (Cons s ss)
  show ?case
  proof (cases "inside h d s")
    case True
    then show ?thesis
      by (auto simp add: split_step_eq Cons.IH fun_eq_iff)
  next
    case False
    define h2 where "h2 = h\<lparr>cells := (cells h)(s := (cells h s)\<lparr>parent := Some bc\<rparr>)\<rparr>"
    have in2: "inside h2 d = inside h d"
      by (rule inside_cong) (simp_all add: h2_def)
    have "fold (split_step bc d) (s # ss) (h, inner, outer)
            = fold (split_step bc d) ss (h2, inner, outer @ [s])"
      using False by (simp add: split_step_eq h2_def)
    also have "\<dots> = (h2\<lparr>cells := (\<lambda>p. if p \<in> set ss \<and> \<not> inside h2 d p
                        then (cells h2 p)\<lparr>parent := Some bc\<rparr> else cells h2 p)\<rparr>,
      inner @ filter (inside h2 d) ss,
      (outer @ [s]) @ filter (\<lambda>s. \<not> inside h2 d s) ss)"
      by (rule Cons.IH)
    also have "\<dots> = (h\<lparr>cells := (\<lambda>p. if p \<in> set (s # ss) \<and> \<not> inside h d p
                        then (cells h p)\<lparr>parent := Some bc\<rparr> else cells h p)\<rparr>,
      inner @ filter (inside h d) (s # ss),
      outer @ filter (\<lambda>s. \<not> inside h d s) (s # ss))"
      unfolding in2 using False by (auto simp add: h2_def fun_eq_iff)
    finally show ?thesis .
  qed
qed

lemma track_apply:
  "track h c s (b, bb) = (if b < spec_offset h c s then (spec_offset h c s, Some s) else (b, bb))"
  by (simp add: track_def)

lemma track_fst: "fst (fold (track h c) ss (b, bb)) = Max (insert b (spec_offset h c ` set ss))"
proof (induction ss arbitrary: b bb)
  case Nil
  show ?case by simp
next
  case (Cons s ss)
  let ?S = "spec_offset h c ` set ss"
  let ?x = "spec_offset h c s"
  have ins: "Max (insert b (spec_offset h c ` set (s # ss))) = max b (Max (insert ?x ?S))"
    by (simp add: max_def)
  show ?case
  proof (cases "b < ?x")
    case True
    have "?x \<le> Max (insert ?x ?S)" by (rule Max_ge) simp_all
    with True have "b \<le> Max (insert ?x ?S)" by linarith
    then have mx: "max b (Max (insert ?x ?S)) = Max (insert ?x ?S)" by (rule max_absorb2)
    have "fst (fold (track h c) (s # ss) (b, bb)) = fst (fold (track h c) ss (?x, Some s))"
      using True by (simp add: track_apply)
    also have "\<dots> = Max (insert ?x ?S)" by (rule Cons.IH)
    finally show ?thesis unfolding ins mx .
  next
    case False
    have mx: "max b (Max (insert ?x ?S)) = Max (insert b ?S)"
    proof (cases "?S = {}")
      case True
      with False show ?thesis by (simp add: max_def)
    next
      case ne: False
      have "max b (Max (insert ?x ?S)) = max b (max ?x (Max ?S))"
        using ne by simp
      also have "\<dots> = max b (Max ?S)"
        using False by (simp add: max_def)
      also have "\<dots> = Max (insert b ?S)"
        using ne by simp
      finally show ?thesis .
    qed
    have "fst (fold (track h c) (s # ss) (b, bb)) = fst (fold (track h c) ss (b, bb))"
      using False by (simp add: track_apply)
    also have "\<dots> = Max (insert b ?S)" by (rule Cons.IH)
    finally show ?thesis unfolding ins mx .
  qed
qed

lemma track_snd:
  "snd (fold (track h c) ss (b, bb)) = Some d \<Longrightarrow>
     (bb = Some d \<and> fst (fold (track h c) ss (b, bb)) = b)
     \<or> (d \<in> set ss \<and> spec_offset h c d = fst (fold (track h c) ss (b, bb))
         \<and> b < spec_offset h c d)"
proof (induction ss arbitrary: b bb)
  case Nil
  then show ?case by simp
next
  case (Cons s ss)
  show ?case
  proof (cases "b < spec_offset h c s")
    case True
    with Cons.prems have "snd (fold (track h c) ss (spec_offset h c s, Some s)) = Some d"
      by (simp add: track_apply)
    from Cons.IH [OF this] True show ?thesis
      by (auto simp add: track_apply)
  next
    case False
    with Cons.prems have "snd (fold (track h c) ss (b, bb)) = Some d"
      by (simp add: track_apply)
    from Cons.IH [OF this] False show ?thesis
      by (auto simp add: track_apply)
  qed
qed

lemma track_Some:
  "\<exists>d. snd (fold (track h c) ss (b, Some x)) = Some d"
  by (induction ss arbitrary: b x) (auto simp add: track_apply)

lemma track_None:
  "snd (fold (track h c) ss (b, None)) = None \<longleftrightarrow> (\<forall>s\<in>set ss. spec_offset h c s \<le> b)"
proof (induction ss arbitrary: b)
  case Nil
  show ?case by simp
next
  case (Cons s ss)
  show ?case
  proof (cases "b < spec_offset h c s")
    case True
    from track_Some [of h c ss "spec_offset h c s" s] True show ?thesis
      by (auto simp add: track_apply)
  next
    case False
    then show ?thesis by (simp add: track_apply Cons.IH)
  qed
qed


lemma soi_loop_sorted:
  "fold (soi_step c) ss (h, 0, None) = (h1, maxR, dopt) \<Longrightarrow>
     h1 = h\<lparr>cells := (\<lambda>p. if p \<in> set ss
                        then (cells h p)\<lparr>parent := Some c, soi := spec_soi h c p\<rparr>
                        else cells h p)\<rparr>
     \<and> maxR = Max (insert 0 (spec_offset h c ` set ss))
     \<and> (case dopt of None \<Rightarrow> (\<forall>s\<in>set ss. spec_offset h c s \<le> 0) \<and> maxR = 0
         | Some d \<Rightarrow> d \<in> set ss \<and> spec_offset h c d = maxR \<and> 0 < maxR)"
proof -
  assume run: "fold (soi_step c) ss (h, 0, None) = (h1, maxR, dopt)"
  then have h1: "h1 = h\<lparr>cells := (\<lambda>p. if p \<in> set ss
                        then (cells h p)\<lparr>parent := Some c, soi := spec_soi h c p\<rparr>
                        else cells h p)\<rparr>"
    and tr: "fold (track h c) ss (0, None) = (maxR, dopt)"
    by (simp_all add: soi_loop_eq)
  from tr have mx: "maxR = Max (insert 0 (spec_offset h c ` set ss))"
    using track_fst [of h c ss 0 None] by simp
  have "case dopt of None \<Rightarrow> (\<forall>s\<in>set ss. spec_offset h c s \<le> 0) \<and> maxR = 0
         | Some d \<Rightarrow> d \<in> set ss \<and> spec_offset h c d = maxR \<and> 0 < maxR"
  proof (cases dopt)
    case None
    with tr have le: "\<forall>s\<in>set ss. spec_offset h c s \<le> 0"
      using track_None [of h c ss 0] by simp
    have "Max (insert 0 (spec_offset h c ` set ss)) = 0"
      by (rule Max_eqI) (use le in auto)
    with None le mx show ?thesis by simp
  next
    case (Some d)
    with tr have "snd (fold (track h c) ss (0, None)) = Some d" by simp
    from track_snd [OF this] tr show ?thesis by (simp add: Some)
  qed
  with h1 mx show ?thesis by blast
qed


lemma NewSystem_barycenter:
  assumes none: "satellites (cells h c) = None"
      and ss: "ss = srt (\<lambda>s. a (cells h s)) sats"
      and run: "fold (soi_step c) ss (h, 0, None) = (h1, maxR, Some d)"
      and ge: "\<not> maxR < 0.5 * radius (cells h c)"
      and cnot: "c \<notin> set ss"
      and cf: "c < fresh h"
      and sf: "\<forall>s\<in>set ss. s < fresh h"
  shows "\<exists>h'. NewSystem srt h c (Some sats) = Inr (fresh h, h')
     \<and> cells h' (fresh h) =
          zero_Barycenter\<lparr>a := a (cells h c), e := e (cells h c), pomega := pomega (cells h c),
            m0 := m0 (cells h c), n := n (cells h c),
            name := name (cells h c) @ ''-'' @ name (cells h d) @ '' Barycenter'',
            satellites := Some (c # filter (\<lambda>s. \<not> spec_inner h c d s) ss),
            radius := maxR, mass := mass (cells h c) + mass (cells h d), soi := - 1\<rparr>
     \<and> cells h' c =
          (cells h c)\<lparr>a := maxR, e := e (cells h d), pomega := pomega (cells h d),
            m0 := m0 (cells h d) + pi, n := n (cells h d),
            satellites := Some (filter (spec_inner h c d) ss),
            soi := a (cells h d) - spec_soi h c d\<rparr>
     \<and> (\<forall>s\<in>set ss. cells h' s =
          (cells h s)\<lparr>a := (if s = d then a (cells h s) - maxR else a (cells h s)),
            parent := Some (if spec_inner h c d s then c else fresh h),
            soi := spec_soi h c s\<rparr>)
     \<and> (\<forall>p. p \<notin> set ss \<and> p \<noteq> c \<and> p \<noteq> fresh h \<longrightarrow> cells h' p = cells h p)"
proof -
  from soi_loop_sorted [OF run]
  have h1: "h1 = h\<lparr>cells := (\<lambda>p. if p \<in> set ss
                        then (cells h p)\<lparr>parent := Some c, soi := spec_soi h c p\<rparr>
                        else cells h p)\<rparr>"
    and d: "d \<in> set ss"
    by simp_all
  define bc where "bc = fresh h"
  have bc_c: "bc \<noteq> c" and bc_ss: "bc \<notin> set ss" and d_c: "d \<noteq> c" and d_bc: "d \<noteq> bc"
    using cf sf cnot d by (auto simp add: bc_def)
  define h2 where "h2 = h1\<lparr>cells := (cells h1)(bc := zero_Barycenter), fresh := Suc (fresh h1)\<rparr>"
  have al: "alloc zero_Barycenter h1 = (bc, h2)"
    by (simp add: alloc_def h2_def bc_def h1)
  have c2: "cells h2 c = cells h c" and b2: "cells h2 bc = zero_Barycenter"
    and s2: "\<And>s. s \<in> set ss \<Longrightarrow> cells h2 s = (cells h s)\<lparr>parent := Some c, soi := spec_soi h c s\<rparr>"
    and o2: "\<And>p. p \<notin> set ss \<Longrightarrow> p \<noteq> bc \<Longrightarrow> cells h2 p = cells h p"
    using bc_c bc_ss cnot by (auto simp add: h2_def h1)
  have ins: "\<And>s. s \<in> set ss \<Longrightarrow> inside h2 d s = spec_inner h c d s"
    using d by (simp add: inside_def spec_inner_def s2)
  have fi: "filter (inside h2 d) ss = filter (spec_inner h c d) ss"
    by (rule filter_cong) (simp_all add: ins)
  have fo: "filter (\<lambda>s. \<not> inside h2 d s) ss = filter (\<lambda>s. \<not> spec_inner h c d s) ss"
    by (rule filter_cong) (simp_all add: ins)
  define h3 where "h3 = h2\<lparr>cells := (\<lambda>p. if p \<in> set ss \<and> \<not> inside h2 d p
                        then (cells h2 p)\<lparr>parent := Some bc\<rparr> else cells h2 p)\<rparr>"
  have sp: "fold (split_step bc d) ss (h2, [], [c])
              = (h3, filter (spec_inner h c d) ss, c # filter (\<lambda>s. \<not> spec_inner h c d s) ss)"
    by (simp add: split_loop_eq h3_def fi fo)
  have c3: "cells h3 c = cells h c" and b3: "cells h3 bc = zero_Barycenter"
    and s3: "\<And>s. s \<in> set ss \<Longrightarrow> cells h3 s =
               (cells h s)\<lparr>parent := Some (if spec_inner h c d s then c else bc), soi := spec_soi h c s\<rparr>"
    and o3: "\<And>p. p \<notin> set ss \<Longrightarrow> p \<noteq> bc \<Longrightarrow> cells h3 p = cells h p"
    using bc_ss cnot by (auto simp add: h3_def c2 b2 s2 o2 ins)
  have r1: "radius (cells h1 c) = radius (cells h c)"
    by (simp add: h1)
  define inner where "inner = filter (spec_inner h c d) ss"
  define outer where "outer = c # filter (\<lambda>s. \<not> spec_inner h c d s) ss"
  define h' where "h' =
     (let h = upd bc (\<lambda>b. b\<lparr>satellites := Some outer\<rparr>) h3;
          h = upd bc (set_orbit (cells h c)) h;
          h = upd bc (\<lambda>b. b\<lparr>name := name (cells h c) @ ''-'' @ name (cells h d) @ '' Barycenter''\<rparr>) h;
          h = upd bc (\<lambda>b. b\<lparr>radius := maxR\<rparr>) h;
          h = upd bc (\<lambda>b. b\<lparr>mass := mass (cells h c) + mass (cells h d)\<rparr>) h;
          h = upd bc (\<lambda>b. b\<lparr>soi := - 1\<rparr>) h;
          h = upd c (\<lambda>b. b\<lparr>soi := a (cells h d) - soi (cells h d)\<rparr>) h;
          h = upd c (\<lambda>b. b\<lparr>satellites := Some inner\<rparr>) h;
          h = upd c (set_orbit (cells h d)) h;
          h = upd c (\<lambda>b. b\<lparr>a := maxR\<rparr>) h;
          h = upd c (\<lambda>b. b\<lparr>m0 := m0 b + pi\<rparr>) h;
          h = upd d (\<lambda>b. b\<lparr>a := a b - maxR\<rparr>) h
      in h)"
  have eq: "NewSystem srt h c (Some sats) = Inr (bc, h')"
    using ge
    by (simp add: NewSystem_def none elems_def ss [symmetric] run r1 al sp
        inner_def [symmetric] outer_def [symmetric] h'_def Let_def)
  have pb: "cells h' bc =
          zero_Barycenter\<lparr>a := a (cells h c), e := e (cells h c), pomega := pomega (cells h c),
            m0 := m0 (cells h c), n := n (cells h c),
            name := name (cells h c) @ ''-'' @ name (cells h d) @ '' Barycenter'',
            satellites := Some outer,
            radius := maxR, mass := mass (cells h c) + mass (cells h d), soi := - 1\<rparr>"
    using bc_c d_bc d_c d by (simp add: h'_def Let_def set_orbit_def c3 b3 s3)
  have pc: "cells h' c =
          (cells h c)\<lparr>a := maxR, e := e (cells h d), pomega := pomega (cells h d),
            m0 := m0 (cells h d) + pi, n := n (cells h d),
            satellites := Some inner,
            soi := a (cells h d) - spec_soi h c d\<rparr>"
    using bc_c d_bc d_c d by (simp add: h'_def Let_def set_orbit_def c3 b3 s3)
  have ps: "cells h' s =
          (cells h s)\<lparr>a := (if s = d then a (cells h s) - maxR else a (cells h s)),
            parent := Some (if spec_inner h c d s then c else bc),
            soi := spec_soi h c s\<rparr>" if "s \<in> set ss" for s
  proof -
    from that have "s \<noteq> c" and "s \<noteq> bc" using cnot bc_ss by auto
    with that d show ?thesis
      by (cases "s = d") (simp_all add: h'_def Let_def s3)
  qed
  have po: "cells h' p = cells h p" if "p \<notin> set ss" and "p \<noteq> c" and "p \<noteq> bc" for p
    using that d by (auto simp add: h'_def Let_def o3)
  from eq pb pc ps po show ?thesis
    unfolding bc_def inner_def outer_def by blast
qed


lemma sorts_byA_set: "sorts_byA srt h xs \<Longrightarrow> set (srt (\<lambda>s. a (cells h s)) xs) = set xs"
  by (auto simp add: sorts_byA_def dest: mset_eq_setD)



lemma NewSystem_barycenter_returns:
  assumes none: "satellites (cells h c) = None"
      and cnot: "c \<notin> set sats"
      and cf: "c < fresh h"
      and sf: "\<forall>s\<in>set sats. s < fresh h"
      and srt: "sorts_byA srt h sats"
      and pos: "0 < Max (insert 0 (spec_offset h c ` set sats))"
      and ge: "\<not> Max (insert 0 (spec_offset h c ` set sats)) < 0.5 * radius (cells h c)"
  shows "\<exists>h' d. NewSystem srt h c (Some sats) = Inr (fresh h, h')
     \<and> d \<in> set sats
     \<and> spec_offset h c d = Max (insert 0 (spec_offset h c ` set sats))
     \<and> cells h' (fresh h) =
          zero_Barycenter\<lparr>a := a (cells h c), e := e (cells h c), pomega := pomega (cells h c),
            m0 := m0 (cells h c), n := n (cells h c),
            name := name (cells h c) @ ''-'' @ name (cells h d) @ '' Barycenter'',
            satellites := Some (c # filter (\<lambda>s. \<not> spec_inner h c d s)
                                    (srt (\<lambda>s. a (cells h s)) sats)),
            radius := spec_offset h c d, mass := mass (cells h c) + mass (cells h d), soi := - 1\<rparr>
     \<and> cells h' c =
          (cells h c)\<lparr>a := spec_offset h c d, e := e (cells h d), pomega := pomega (cells h d),
            m0 := m0 (cells h d) + pi, n := n (cells h d),
            satellites := Some (filter (spec_inner h c d) (srt (\<lambda>s. a (cells h s)) sats)),
            soi := a (cells h d) - spec_soi h c d\<rparr>
     \<and> (\<forall>s\<in>set sats. cells h' s =
          (cells h s)\<lparr>a := (if s = d then a (cells h s) - spec_offset h c d else a (cells h s)),
            parent := Some (if spec_inner h c d s then c else fresh h),
            soi := spec_soi h c s\<rparr>)
     \<and> (\<forall>p. p \<notin> set sats \<and> p \<noteq> c \<and> p \<noteq> fresh h \<longrightarrow> cells h' p = cells h p)"
proof -
  define ss where "ss = srt (\<lambda>s. a (cells h s)) sats"
  have set_ss: "set ss = set sats"
    using srt by (simp add: ss_def sorts_byA_set)
  obtain h1 maxR dopt where run: "fold (soi_step c) ss (h, 0, None) = (h1, maxR, dopt)"
    by (cases "fold (soi_step c) ss (h, 0, None)")
  from soi_loop_sorted [OF run]
  have mx: "maxR = Max (insert 0 (spec_offset h c ` set sats))"
    and dom: "case dopt of None \<Rightarrow> (\<forall>s\<in>set ss. spec_offset h c s \<le> 0) \<and> maxR = 0
         | Some d \<Rightarrow> d \<in> set ss \<and> spec_offset h c d = maxR \<and> 0 < maxR"
    by (simp_all add: set_ss)
  from dom pos mx obtain d where d: "dopt = Some d" "d \<in> set sats" "spec_offset h c d = maxR"
    by (cases dopt) (auto simp add: set_ss)
  have ge': "\<not> maxR < 0.5 * radius (cells h c)"
    using ge by (simp add: mx)
  have cnot': "c \<notin> set ss" and sf': "\<forall>s\<in>set ss. s < fresh h"
    using cnot sf by (simp_all add: set_ss)
  from NewSystem_barycenter [where h = h and c = c and ss = ss and srt = srt and sats = sats,
      OF none ss_def run [unfolded d(1)] ge' cnot' cf sf']
  obtain h' where eq: "NewSystem srt h c (Some sats) = Inr (fresh h, h')"
    and pb: "cells h' (fresh h) =
          zero_Barycenter\<lparr>a := a (cells h c), e := e (cells h c), pomega := pomega (cells h c),
            m0 := m0 (cells h c), n := n (cells h c),
            name := name (cells h c) @ ''-'' @ name (cells h d) @ '' Barycenter'',
            satellites := Some (c # filter (\<lambda>s. \<not> spec_inner h c d s) ss),
            radius := maxR, mass := mass (cells h c) + mass (cells h d), soi := - 1\<rparr>"
    and pc: "cells h' c =
          (cells h c)\<lparr>a := maxR, e := e (cells h d), pomega := pomega (cells h d),
            m0 := m0 (cells h d) + pi, n := n (cells h d),
            satellites := Some (filter (spec_inner h c d) ss),
            soi := a (cells h d) - spec_soi h c d\<rparr>"
    and ps: "\<forall>s\<in>set ss. cells h' s =
          (cells h s)\<lparr>a := (if s = d then a (cells h s) - maxR else a (cells h s)),
            parent := Some (if spec_inner h c d s then c else fresh h),
            soi := spec_soi h c s\<rparr>"
    and po: "\<forall>p. p \<notin> set ss \<and> p \<noteq> c \<and> p \<noteq> fresh h \<longrightarrow> cells h' p = cells h p"
    by (elim exE conjE)
  show ?thesis
  proof (intro exI conjI)
    show "NewSystem srt h c (Some sats) = Inr (fresh h, h')" by (rule eq)
    show "d \<in> set sats" by (rule d(2))
    show "spec_offset h c d = Max (insert 0 (spec_offset h c ` set sats))"
      using d(3) mx by simp
    show "cells h' (fresh h) =
          zero_Barycenter\<lparr>a := a (cells h c), e := e (cells h c), pomega := pomega (cells h c),
            m0 := m0 (cells h c), n := n (cells h c),
            name := name (cells h c) @ ''-'' @ name (cells h d) @ '' Barycenter'',
            satellites := Some (c # filter (\<lambda>s. \<not> spec_inner h c d s)
                                    (srt (\<lambda>s. a (cells h s)) sats)),
            radius := spec_offset h c d, mass := mass (cells h c) + mass (cells h d), soi := - 1\<rparr>"
      unfolding d(3) ss_def [symmetric] by (rule pb)
    show "cells h' c =
          (cells h c)\<lparr>a := spec_offset h c d, e := e (cells h d), pomega := pomega (cells h d),
            m0 := m0 (cells h d) + pi, n := n (cells h d),
            satellites := Some (filter (spec_inner h c d) (srt (\<lambda>s. a (cells h s)) sats)),
            soi := a (cells h d) - spec_soi h c d\<rparr>"
      unfolding d(3) ss_def [symmetric] by (rule pc)
    show "\<forall>s\<in>set sats. cells h' s =
          (cells h s)\<lparr>a := (if s = d then a (cells h s) - spec_offset h c d else a (cells h s)),
            parent := Some (if spec_inner h c d s then c else fresh h),
            soi := spec_soi h c s\<rparr>"
      unfolding d(3) set_ss [symmetric] by (rule ps)
    show "\<forall>p. p \<notin> set sats \<and> p \<noteq> c \<and> p \<noteq> fresh h \<longrightarrow> cells h' p = cells h p"
      unfolding set_ss [symmetric] by (rule po)
  qed
qed


lemma NewSystem_already_set:
  "satellites (cells h c) \<noteq> None \<Longrightarrow> NewSystem srt h c sats = Inl SatellitesAlreadySet"
  by (simp add: NewSystem_def)

lemma NewSystem_sets_satellites:
  assumes ret: "NewSystem srt h c (Some xs) = Inr (rt, h')"
  shows "satellites (cells h' c) \<noteq> None"
proof -
  define ss where "ss = srt (\<lambda>s. a (cells h s)) xs"
  obtain h1 mxr bb where run: "fold (soi_step c) ss (h, 0, None) = (h1, mxr, bb)"
    by (cases "fold (soi_step c) ss (h, 0, None)")
  from ret have none: "satellites (cells h c) = None"
    by (simp add: NewSystem_def split: if_splits)
  show ?thesis
  proof (cases "mxr < 0.5 * radius (cells h1 c)")
    case True
    with ret have "h' = upd c (\<lambda>b. b\<lparr>satellites := Some ss\<rparr>) (upd c (\<lambda>b. b\<lparr>soi := - 1\<rparr>) h1)"
      by (auto simp add: NewSystem_def none elems_def ss_def [symmetric] run Let_def)
    then show ?thesis by simp
  next
    case False
    obtain bc h2 where al: "alloc zero_Barycenter h1 = (bc, h2)"
      by (cases "alloc zero_Barycenter h1")
    from ret False obtain d where d: "bb = Some d"
      by (cases bb) (simp_all add: NewSystem_def none elems_def ss_def [symmetric] run al Let_def)
    obtain h3 inner outer where sp: "fold (split_step bc d) ss (h2, [], [c]) = (h3, inner, outer)"
      by (cases "fold (split_step bc d) ss (h2, [], [c])")
    define h'' where "h'' =
     (let h = upd bc (\<lambda>b. b\<lparr>satellites := Some outer\<rparr>) h3;
          h = upd bc (set_orbit (cells h c)) h;
          h = upd bc (\<lambda>b. b\<lparr>name := name (cells h c) @ ''-'' @ name (cells h d) @ '' Barycenter''\<rparr>) h;
          h = upd bc (\<lambda>b. b\<lparr>radius := mxr\<rparr>) h;
          h = upd bc (\<lambda>b. b\<lparr>mass := mass (cells h c) + mass (cells h d)\<rparr>) h;
          h = upd bc (\<lambda>b. b\<lparr>soi := - 1\<rparr>) h;
          h = upd c (\<lambda>b. b\<lparr>soi := a (cells h d) - soi (cells h d)\<rparr>) h;
          h = upd c (\<lambda>b. b\<lparr>satellites := Some inner\<rparr>) h;
          h = upd c (set_orbit (cells h d)) h;
          h = upd c (\<lambda>b. b\<lparr>a := mxr\<rparr>) h;
          h = upd c (\<lambda>b. b\<lparr>m0 := m0 b + pi\<rparr>) h;
          h = upd d (\<lambda>b. b\<lparr>a := a b - mxr\<rparr>) h
      in h)"
    from False have "NewSystem srt h c (Some xs) = Inr (bc, h'')"
      by (simp add: NewSystem_def none elems_def ss_def [symmetric] run al d sp h''_def Let_def)
    with ret have "h' = h''" by simp
    then show ?thesis
      by (simp add: h''_def Let_def set_orbit_def)
  qed
qed

lemma NewSystem_no_satellite:
  assumes none: "satellites (cells h c) = None"
      and empty: "elems sats = []"
      and srt: "sorts_byA srt h (elems sats)"
  shows "if 0 < radius (cells h c)
         then NewSystem srt h c sats
                = Inr (c, upd c (\<lambda>b. b\<lparr>satellites := map_option (srt (\<lambda>s. a (cells h s))) sats\<rparr>)
                            (upd c (\<lambda>b. b\<lparr>soi := - 1\<rparr>) h))
         else NewSystem srt h c sats = Inl NilDereference"
proof -
  from srt empty have "srt (\<lambda>s. a (cells h s)) [] = []"
    by (simp add: sorts_byA_def)
  with empty have e: "elems (map_option (srt (\<lambda>s. a (cells h s))) sats) = []"
    by (cases sats) (simp_all add: elems_def)
  show ?thesis
    by (simp add: NewSystem_def none e Let_def alloc_def)
qed


section \<open>The example systems\<close>

lemma sorts_byA_sort_key: "sorts_byA sort_key h xs"
  by (simp add: sorts_byA_def)

lemma binary_cells:
  "cells binary_heap 0 = NewBody Planet ''A'' 1 1 (NewOrbit 40 (1 / 4) 2 3 (1 / 100))"
  "cells binary_heap (Suc 0) = NewBody Moon ''B'' (1 / 2) 1 (NewOrbit 10 0 1 2 (1 / 6))"
  "cells binary_heap 2 = NewBody Moon ''C'' (1 / 4) 1 (NewOrbit 8 0 0 0 (1 / 5))"
  "fresh binary_heap = 3"
  by (simp_all add: binary_heap_def heap_of_def alloc_def empty_heap_def)

lemma binary_spec:
  "spec_offset binary_heap 0 (Suc 0) = 5" "spec_offset binary_heap 0 2 = 4"
  "spec_soi binary_heap 0 (Suc 0) = 10" "spec_soi binary_heap 0 2 = 8"
  "\<not> spec_inner binary_heap 0 (Suc 0) (Suc 0)" "\<not> spec_inner binary_heap 0 (Suc 0) 2"
  by (simp_all add: spec_offset_def spec_soi_def spec_inner_def binary_cells NewBody_def NewOrbit_def)

lemma binary_pair:
  "\<exists>h'. NewSystem sort_key binary_heap 0 (Some [1]) = Inr (3, h')
     \<and> cells h' 3 =
          zero_Barycenter\<lparr>a := 40, e := 1 / 4, pomega := 2, m0 := 3, n := 1 / 100,
            name := ''A-B Barycenter'', satellites := Some [0, 1],
            radius := 5, mass := 2, soi := - 1\<rparr>
     \<and> cells h' 0 =
          (cells binary_heap 0)\<lparr>a := 5, e := 0, pomega := 1, m0 := 2 + pi, n := 1 / 6,
            satellites := Some [], soi := 0\<rparr>
     \<and> cells h' 1 = (cells binary_heap 1)\<lparr>a := 5, parent := Some 3, soi := 10\<rparr>"
proof -
  have hyps: "satellites (cells binary_heap 0) = None" "0 \<notin> set [1::nat]" "0 < fresh binary_heap"
    "\<forall>s\<in>set [1::nat]. s < fresh binary_heap"
    "0 < Max (insert 0 (spec_offset binary_heap 0 ` set [1]))"
    "\<not> Max (insert 0 (spec_offset binary_heap 0 ` set [1])) < 0.5 * radius (cells binary_heap 0)"
    by (simp_all add: binary_cells binary_spec NewBody_def)
  from NewSystem_barycenter_returns [OF hyps(1-4) sorts_byA_sort_key hyps(5,6)]
  obtain h' d where eq: "NewSystem sort_key binary_heap 0 (Some [1]) = Inr (fresh binary_heap, h')"
    and d: "d \<in> set [1::nat]"
    and pb: "cells h' (fresh binary_heap) =
          zero_Barycenter\<lparr>a := a (cells binary_heap 0), e := e (cells binary_heap 0),
            pomega := pomega (cells binary_heap 0),
            m0 := m0 (cells binary_heap 0), n := n (cells binary_heap 0),
            name := name (cells binary_heap 0) @ ''-'' @ name (cells binary_heap d) @ '' Barycenter'',
            satellites := Some (0 # filter (\<lambda>s. \<not> spec_inner binary_heap 0 d s)
                                    (sort_key (\<lambda>s. a (cells binary_heap s)) [1])),
            radius := spec_offset binary_heap 0 d,
            mass := mass (cells binary_heap 0) + mass (cells binary_heap d), soi := - 1\<rparr>"
    and pc: "cells h' 0 =
          (cells binary_heap 0)\<lparr>a := spec_offset binary_heap 0 d, e := e (cells binary_heap d),
            pomega := pomega (cells binary_heap d),
            m0 := m0 (cells binary_heap d) + pi, n := n (cells binary_heap d),
            satellites := Some (filter (spec_inner binary_heap 0 d)
                                  (sort_key (\<lambda>s. a (cells binary_heap s)) [1])),
            soi := a (cells binary_heap d) - spec_soi binary_heap 0 d\<rparr>"
    and ps: "\<forall>s\<in>set [1]. cells h' s =
          (cells binary_heap s)\<lparr>a := (if s = d then a (cells binary_heap s) - spec_offset binary_heap 0 d
                                      else a (cells binary_heap s)),
            parent := Some (if spec_inner binary_heap 0 d s then 0 else fresh binary_heap),
            soi := spec_soi binary_heap 0 s\<rparr>"
    by (elim exE conjE)
  from d have d1: "d = Suc 0" by simp
  show ?thesis
  proof (intro exI conjI)
    show "NewSystem sort_key binary_heap 0 (Some [1]) = Inr (3, h')"
      using eq by (simp add: binary_cells)
    show "cells h' 3 =
          zero_Barycenter\<lparr>a := 40, e := 1 / 4, pomega := 2, m0 := 3, n := 1 / 100,
            name := ''A-B Barycenter'', satellites := Some [0, 1],
            radius := 5, mass := 2, soi := - 1\<rparr>"
      using pb unfolding d1 by (simp add: binary_cells binary_spec NewBody_def NewOrbit_def)
    show "cells h' 0 =
          (cells binary_heap 0)\<lparr>a := 5, e := 0, pomega := 1, m0 := 2 + pi, n := 1 / 6,
            satellites := Some [], soi := 0\<rparr>"
      using pc unfolding d1 by (simp add: binary_cells binary_spec NewBody_def NewOrbit_def)
    show "cells h' 1 = (cells binary_heap 1)\<lparr>a := 5, parent := Some 3, soi := 10\<rparr>"
      using ps unfolding d1 by (simp add: binary_cells binary_spec NewBody_def NewOrbit_def)
  qed
qed


lemma pair_facts:
  "pair_result = Inr (3, snd (projr pair_result))"
  "fst (projr pair_result) = 3"
  "cells (snd (projr pair_result)) 3 =
     zero_Barycenter\<lparr>a := 40, e := 1 / 4, pomega := 2, m0 := 3, n := 1 / 100,
       name := ''A-B Barycenter'', satellites := Some [0, 1],
       radius := 5, mass := 2, soi := - 1\<rparr>"
  "cells (snd (projr pair_result)) 0 =
     (cells binary_heap 0)\<lparr>a := 5, e := 0, pomega := 1, m0 := 2 + pi, n := 1 / 6,
       satellites := Some [], soi := 0\<rparr>"
  "cells (snd (projr pair_result)) (Suc 0) =
     (cells binary_heap (Suc 0))\<lparr>a := 5, parent := Some 3, soi := 10\<rparr>"
proof -
  from binary_pair obtain h' where eq: "pair_result = Inr (3, h')"
    and rest: "cells h' 3 =
          zero_Barycenter\<lparr>a := 40, e := 1 / 4, pomega := 2, m0 := 3, n := 1 / 100,
            name := ''A-B Barycenter'', satellites := Some [0, 1],
            radius := 5, mass := 2, soi := - 1\<rparr>"
      "cells h' 0 =
          (cells binary_heap 0)\<lparr>a := 5, e := 0, pomega := 1, m0 := 2 + pi, n := 1 / 6,
            satellites := Some [], soi := 0\<rparr>"
      "cells h' 1 = (cells binary_heap 1)\<lparr>a := 5, parent := Some 3, soi := 10\<rparr>"
    unfolding pair_result_def by (elim exE conjE)
  have pr: "projr pair_result = (3, h')" by (simp add: eq)
  show "pair_result = Inr (3, snd (projr pair_result))"
    "fst (projr pair_result) = 3"
    by (simp_all add: eq)
  show "cells (snd (projr pair_result)) 3 =
     zero_Barycenter\<lparr>a := 40, e := 1 / 4, pomega := 2, m0 := 3, n := 1 / 100,
       name := ''A-B Barycenter'', satellites := Some [0, 1],
       radius := 5, mass := 2, soi := - 1\<rparr>"
    unfolding pr snd_conv by (rule rest(1))
  show "cells (snd (projr pair_result)) 0 =
     (cells binary_heap 0)\<lparr>a := 5, e := 0, pomega := 1, m0 := 2 + pi, n := 1 / 6,
       satellites := Some [], soi := 0\<rparr>"
    unfolding pr snd_conv by (rule rest(2))
  show "cells (snd (projr pair_result)) (Suc 0) =
     (cells binary_heap (Suc 0))\<lparr>a := 5, parent := Some 3, soi := 10\<rparr>"
    unfolding pr snd_conv using rest(3) by simp
qed

lemma binary_hyps:
  "satellites (cells binary_heap 0) = None"
  "0 < fresh binary_heap"
  "\<forall>s\<in>set [1::nat]. s < fresh binary_heap"
  "\<forall>s\<in>set [1::nat, 2]. s < fresh binary_heap"
  "Max (insert 0 (spec_offset binary_heap 0 ` set [1])) = 5"
  "Max (insert 0 (spec_offset binary_heap 0 ` set [1, 2])) = 5"
  "radius (cells binary_heap 0) = 1"
  "(1::nat) < fresh binary_heap"
  "(2::nat) < fresh binary_heap"
  by (simp_all add: binary_cells binary_spec NewBody_def)




section \<open>The hierarchy builder: results\<close>





text \<open>
  C6, as stated, fails: called with an empty slice on a body of radius 1, \<open>NewSystem\<close>
  returns and does not panic.
\<close>

theorem no_satellite_no_panic:
  "\<not> isl (NewSystem sort_key binary_heap 0 (Some []))"
  using NewSystem_no_satellite [of binary_heap 0 "Some []" sort_key]
  by (simp add: binary_hyps elems_def sorts_byA_sort_key)

text \<open>
  C6, amended: \<open>NewSystem\<close> panics whenever the satellite list of the central body is
  already set, and so does every second call on a body after a call with a slice that
  is not \<open>nil\<close> has returned. Called with no satellite it panics only when the radius
  of the central body is zero or negative (the dominant satellite is \<open>nil\<close> and is
  dereferenced); when the radius is positive it returns the central body as the root,
  with \<open>soi = -1\<close>.
\<close>

theorem NewSystem_panics:
  "(satellites (cells h c) \<noteq> None \<longrightarrow> NewSystem srt h c sats = Inl SatellitesAlreadySet)
   \<and> (NewSystem srt h c (Some xs) = Inr (rt, h') \<longrightarrow>
        NewSystem srt' h' c sats' = Inl SatellitesAlreadySet)
   \<and> (satellites (cells h c) = None \<and> elems sats = [] \<and> sorts_byA srt h (elems sats) \<longrightarrow>
        (if 0 < radius (cells h c)
         then \<exists>h''. NewSystem srt h c sats = Inr (c, h'') \<and> soi (cells h'' c) = - 1
         else NewSystem srt h c sats = Inl NilDereference))"
proof (intro conjI impI)
  assume "satellites (cells h c) \<noteq> None"
  then show "NewSystem srt h c sats = Inl SatellitesAlreadySet"
    by (rule NewSystem_already_set)
next
  assume "NewSystem srt h c (Some xs) = Inr (rt, h')"
  then have "satellites (cells h' c) \<noteq> None"
    by (rule NewSystem_sets_satellites)
  then show "NewSystem srt' h' c sats' = Inl SatellitesAlreadySet"
    by (rule NewSystem_already_set)
next
  assume "satellites (cells h c) = None \<and> elems sats = [] \<and> sorts_byA srt h (elems sats)"
  then have none: "satellites (cells h c) = None" and empty: "elems sats = []"
    and srt: "sorts_byA srt h (elems sats)"
    by blast+
  from NewSystem_no_satellite [OF none empty srt]
  show "if 0 < radius (cells h c)
         then \<exists>h''. NewSystem srt h c sats = Inr (c, h'') \<and> soi (cells h'' c) = - 1
         else NewSystem srt h c sats = Inl NilDereference"
    by (simp split: if_splits)
qed

theorem NewSystem_panics_witness:
  "satellites (cells (snd (projr pair_result)) 0) \<noteq> None
   \<and> NewSystem sort_key (snd (projr pair_result)) 0 (Some [2]) = Inl SatellitesAlreadySet
   \<and> pair_result = Inr (3, snd (projr pair_result))
   \<and> NewSystem sort_key (snd (projr pair_result)) 0 None = Inl SatellitesAlreadySet
   \<and> satellites (cells binary_heap 0) = None \<and> elems (Some []) = ([] :: addr list)
   \<and> sorts_byA sort_key binary_heap (elems (Some []))
   \<and> 0 < radius (cells binary_heap 0)
   \<and> (\<exists>h''. NewSystem sort_key binary_heap 0 (Some []) = Inr (0, h'') \<and> soi (cells h'' 0) = - 1)"
proof -
  have set: "satellites (cells (snd (projr pair_result)) 0) \<noteq> None"
    by (simp add: pair_facts(2-))
  have ret: "pair_result = Inr (3, snd (projr pair_result))"
    by (rule pair_facts(1))
  have h1: "satellites (cells binary_heap 0) = None"
    and h2: "elems (Some []) = ([] :: addr list)"
    and h3: "sorts_byA sort_key binary_heap (elems (Some []))"
    and pos: "0 < radius (cells binary_heap 0)"
    by (simp_all add: binary_hyps elems_def sorts_byA_sort_key)
  note thm1 = NewSystem_panics [of "snd (projr pair_result)" 0 sort_key "Some [2]"]
  note thm2 = NewSystem_panics [of binary_heap 0 sort_key "Some []" "[1]" 3
      "snd (projr pair_result)" sort_key None, folded pair_result_def]
  note a1 = thm1 [THEN conjunct1, THEN mp, OF set]
  note a2 = thm2 [THEN conjunct2, THEN conjunct1, THEN mp, OF ret]
  from thm2 [THEN conjunct2, THEN conjunct2, THEN mp, OF conjI [OF h1 conjI [OF h2 h3]]] pos
  have a3: "\<exists>h''. NewSystem sort_key binary_heap 0 (Some []) = Inr (0, h'') \<and> soi (cells h'' 0) = - 1"
    by (simp only: if_True)
  from set a1 ret a2 h1 h2 h3 pos a3 show ?thesis
    by (intro conjI)
qed




text \<open>
  C8: the links are not consistent after the call in the barycenter case. For the body
  \<open>A\<close> and its moon \<open>B\<close>, the list of the barycenter is \<open>A\<close>, \<open>B\<close> and the parent of
  \<open>B\<close> is the barycenter, but the parent of \<open>A\<close> is still \<open>nil\<close>.
\<close>

theorem central_body_parent_not_set:
  "\<not> isl pair_result
   \<and> satellites (cells (snd (projr pair_result)) (fst (projr pair_result))) = Some [0, 1]
   \<and> parent (cells (snd (projr pair_result)) 1) = Some (fst (projr pair_result))
   \<and> parent (cells (snd (projr pair_result)) 0) = None"
proof -
  have "\<not> isl pair_result"
    by (subst pair_facts(1)) simp
  moreover have "satellites (cells (snd (projr pair_result)) (fst (projr pair_result))) = Some [0, 1]"
    "parent (cells (snd (projr pair_result)) 1) = Some (fst (projr pair_result))"
    "parent (cells (snd (projr pair_result)) 0) = None"
    by (simp_all add: pair_facts(2-) binary_cells NewBody_def)
  ultimately show ?thesis by simp
qed






end
